theory Spec2Isabelle
  imports Main "HOL-Library.Sublist" "HOL-Library.List_Lexorder" "HOL-Library.Char_ord"
begin

section \<open>Python text and container primitives used by the sources\<close>

text \<open>
  Python \<open>str\<close> values are modelled as \<open>string\<close>, one \<open>char\<close> per code point, so the
  model covers text whose code points are below 256. Paths (\<open>pathlib.Path\<close>) are modelled
  by their string form \<open>str(path)\<close> on a POSIX host; \<open>Path\<close> below is the constructor,
  with the normalisation it applies.
\<close>

text \<open>The characters \<open>str.strip()\<close> removes: the code points below 256 that Python
  classifies as whitespace (tab to carriage return, the four separators 28 to 31, space,
  next-line 133 and no-break space 160).\<close>

definition is_space :: "char \<Rightarrow> bool" where
  "is_space c =
     (let n = (of_char c :: nat)
      in (9 \<le> n \<and> n \<le> 13) \<or> (28 \<le> n \<and> n \<le> 32) \<or> n = 133 \<or> n = 160)"

text \<open>\<open>s.strip()\<close>\<close>

definition py_strip :: "string \<Rightarrow> string" where
  "py_strip s = rev (dropWhile is_space (rev (dropWhile is_space s)))"

text \<open>\<open>s.split(sep)\<close> for a non-empty separator: a left-to-right scan for non-overlapping
  occurrences of \<open>sep\<close>. Python raises \<open>ValueError\<close> for an empty separator; every call in
  the sources passes a non-empty one (a literal, or the browsers directory, see
  \<open>playwright_browsers_dir_not_empty\<close>), and for an empty one the model does not split.\<close>

function py_split :: "string \<Rightarrow> string \<Rightarrow> string list" where
  "py_split sep [] = [[]]"
| "py_split sep (c # cs) =
     (if sep \<noteq> [] \<and> prefix sep (c # cs)
      then [] # py_split sep (drop (length sep) (c # cs))
      else (case py_split sep cs of
              [] \<Rightarrow> [[c]]
            | p # ps \<Rightarrow> (c # p) # ps))"
  by pat_completeness auto
termination
  by (relation "measure (\<lambda>(sep, s). length s)") auto

definition newline :: string where
  "newline = [CHR 0x0A]"

text \<open>\<open>sep.join(parts)\<close>\<close>

fun py_join :: "string \<Rightarrow> string list \<Rightarrow> string" where
  "py_join sep [] = []"
| "py_join sep [x] = x"
| "py_join sep (x # y # ys) = x @ sep @ py_join sep (y # ys)"

text \<open>\<open>str(Path(p))\<close> on POSIX: the root is \<open>//\<close> for exactly two leading slashes, \<open>/\<close> for
  any other number of them, and empty otherwise; the rest is split at slashes, empty
  components and single dots are dropped, and the remaining components are joined again.
  The empty path is written as a dot.\<close>

definition Path :: "string \<Rightarrow> string" where
  "Path p =
     (let root = (if \<not> prefix ''/'' p then []
                  else if prefix ''//'' p \<and> \<not> prefix ''///'' p then ''//''
                  else ''/'');
          tail = filter (\<lambda>x. x \<noteq> [] \<and> x \<noteq> ''.'') (py_split ''/'' (drop (length root) p));
          s = root @ py_join ''/'' tail
      in if s = [] then ''.'' else s)"

text \<open>\<open>sub in s\<close> on strings.\<close>

fun py_in :: "string \<Rightarrow> string \<Rightarrow> bool" where
  "py_in sub [] = (sub = [])"
| "py_in sub (c # cs) = (prefix sub (c # cs) \<or> py_in sub cs)"

text \<open>\<open>s.lower()\<close> on code points below 256: the ASCII capitals and the Latin-1 capitals
  192 to 222 (except the multiplication sign 215) move up by 32.\<close>

definition py_lower_char :: "char \<Rightarrow> char" where
  "py_lower_char c =
     (let n = (of_char c :: nat)
      in if (65 \<le> n \<and> n \<le> 90) \<or> (192 \<le> n \<and> n \<le> 222 \<and> n \<noteq> 215)
         then char_of (n + 32) else c)"

definition py_lower :: "string \<Rightarrow> string" where
  "py_lower s = map py_lower_char s"

text \<open>\<open>s.rsplit('/', 1)[-1]\<close> and \<open>path.name\<close>: the text after the last slash.\<close>

definition after_last_slash :: "string \<Rightarrow> string" where
  "after_last_slash s = rev (takeWhile (\<lambda>c. c \<noteq> CHR ''/'') (rev s))"

text \<open>Truth value of a Python string or \<open>None\<close>: false for \<open>None\<close> and for the empty string.\<close>

fun truthy :: "string option \<Rightarrow> bool" where
  "truthy None = False"
| "truthy (Some s) = (s \<noteq> [])"

text \<open>A generator object, as returned by \<open>Path.glob\<close>: it holds the items it will yield.
  \<open>list(g)\<close> runs it; its truth value is that of any Python object defining neither
  \<open>__bool__\<close> nor \<open>__len__\<close>, namely true, whatever it would yield.\<close>

datatype 'a generator = Generator "'a list"

fun py_list :: "'a generator \<Rightarrow> 'a list" where
  "py_list (Generator xs) = xs"

fun py_bool_generator :: "'a generator \<Rightarrow> bool" where
  "py_bool_generator (Generator xs) = True"

text \<open>Exceptions of the sources, as values.\<close>

datatype os_error = FileExistsError | PermissionError | OtherOSError

datatype error =
    AssertionError string
  | ValidationError
  | KeyError string
  | TypeError
  | UnicodeDecodeError
  | OSError os_error
  | InstallUnavailable
  | InstallReturncode int "string list"

text \<open>
  \<open>AssertionError msg\<close> is a failed \<open>assert\<close> with its message; \<open>ValidationError\<close> is what
  pydantic raises when a field validator or a model validator fails; \<open>OSError e\<close> is an
  error of the operating system, of the subclass \<open>e\<close>; \<open>InstallUnavailable\<close>
  and \<open>InstallReturncode rc packages\<close> are the two \<open>Exception(...)\<close> values raised by the
  playwright install handler, the second with the two values its message is formatted
  from.
\<close>

text \<open>A finished subprocess (\<open>subprocess.CompletedProcess\<close>); \<open>'buf\<close> is the type of the
  captured buffers.\<close>

record 'buf CompletedProcess =
  proc_returncode :: int
  proc_stdout :: 'buf
  proc_stderr :: 'buf


section \<open>plugantic/base_extractor.py\<close>

definition no_empty_args :: "string list \<Rightarrow> error + string list" where
  "no_empty_args args =
     (if list_all (\<lambda>arg. length arg \<noteq> 0) args then Inr args else Inl (AssertionError []))"

record BaseExtractor =
  name :: string
  binary :: string
  default_args :: "string list"
  extra_args :: "string list"
  args :: "string list option"

text \<open>The keyword arguments of \<open>BaseExtractor(...)\<close>; \<open>None\<close> is an argument that was not
  passed (for \<open>args\<close> also an explicit \<open>None\<close>). The four handler-name fields are left out:
  their validator \<open>lambda s: s.startswith('self.')\<close> never raises, and nothing modelled
  here reads them.\<close>

record BaseExtractor_kwargs =
  kw_name :: string
  kw_binary :: string
  kw_default_args :: "string list option"
  kw_extra_args :: "string list option"
  kw_args :: "string list option"

definition validate_model :: "BaseExtractor \<Rightarrow> BaseExtractor" where
  "validate_model self =
     (if args self = None
      then self\<lparr>args := Some (default_args self @ extra_args self)\<rparr>
      else self)"

text \<open>Field validation of a \<open>CmdArgsList\<close> field: a passed value goes through
  \<open>no_empty_args\<close>; a field that was not passed takes its default unvalidated.\<close>

definition CmdArgsList_field :: "string list option \<Rightarrow> error + string list" where
  "CmdArgsList_field v = (case v of None \<Rightarrow> Inr [] | Some xs \<Rightarrow> no_empty_args xs)"

definition Optional_CmdArgsList_field :: "string list option \<Rightarrow> error + string list option" where
  "Optional_CmdArgsList_field v =
     (case v of
        None \<Rightarrow> Inr None
      | Some xs \<Rightarrow> (case no_empty_args xs of Inl e \<Rightarrow> Inl e | Inr ys \<Rightarrow> Inr (Some ys)))"

text \<open>Construction: pydantic validates every field, fails with a \<open>ValidationError\<close> if any
  field validator failed, and otherwise runs the \<open>mode='after'\<close> model validator. The
  validator of the \<open>BinName\<close> type belongs to the \<open>pydantic_pkgr\<close> package and is the
  parameter \<open>BinName_ok\<close>.\<close>

definition construct :: "(string \<Rightarrow> bool) \<Rightarrow> BaseExtractor_kwargs \<Rightarrow> error + BaseExtractor" where
  "construct BinName_ok kw =
     (case (CmdArgsList_field (kw_default_args kw),
            CmdArgsList_field (kw_extra_args kw),
            Optional_CmdArgsList_field (kw_args kw)) of
        (Inr d, Inr e, Inr a) \<Rightarrow>
          if BinName_ok (kw_binary kw)
          then Inr (validate_model \<lparr>name = kw_name kw, binary = kw_binary kw,
                                     default_args = d, extra_args = e, args = a\<rparr>)
          else Inl ValidationError
      | _ \<Rightarrow> Inl ValidationError)"

text \<open>What the extractor sees of its host: the files a glob pattern finds in a directory,
  the registry \<open>settings.BINARIES\<close> (each binary with its \<open>exec\<close> method, which may raise),
  and the codec behind \<open>bytes.decode()\<close>, which fails on a buffer that is not valid text.\<close>

record 'buf extractor_host =
  glob :: "string \<Rightarrow> string \<Rightarrow> string list"
  BINARIES :: "string \<Rightarrow> (string list \<Rightarrow> string \<Rightarrow> error + 'buf CompletedProcess) option"
  decode :: "'buf \<Rightarrow> string option"

definition Path_glob :: "('buf, 'x) extractor_host_scheme \<Rightarrow> string \<Rightarrow> string \<Rightarrow> string generator" where
  "Path_glob h dir pattern = Generator (glob h dir pattern)"

definition get_output_path :: "BaseExtractor \<Rightarrow> 'snap \<Rightarrow> string" where
  "get_output_path self snapshot = Path (name self)"

definition should_extract :: "('buf, 'x) extractor_host_scheme \<Rightarrow> BaseExtractor \<Rightarrow> 'snap \<Rightarrow> bool" where
  "should_extract h self snapshot =
     (let output_dir = get_output_path self snapshot
      in if py_bool_generator (Path_glob h output_dir ''*.*'') then False else True)"

definition exec :: "('buf, 'x) extractor_host_scheme \<Rightarrow> BaseExtractor \<Rightarrow> string list \<Rightarrow> string
                    \<Rightarrow> error + 'buf CompletedProcess" where
  "exec h self cmd pwd =
     (case BINARIES h (binary self) of
        None \<Rightarrow> Inl (KeyError (binary self))
      | Some bin \<Rightarrow> bin cmd pwd)"

text \<open>The dictionary \<open>extract\<close> returns; \<open>output_entry\<close> is its \<open>output\<close> key.\<close>

record ExtractionResult =
  status :: string
  output_entry :: string
  output_files :: "string list"
  stdout :: string
  stderr :: string
  returncode :: int

text \<open>The command line built by \<open>extract\<close>.\<close>

definition extract_cmd :: "BaseExtractor \<Rightarrow> string \<Rightarrow> string list" where
  "extract_cmd self url =
     (case args self of
        Some a \<Rightarrow> url # a
      | None \<Rightarrow> url # default_args self @ extra_args self)"

text \<open>\<open>extract_fn\<close> is the method \<open>extract\<close> (a reserved word here).
  \<open>extract(url, **kwargs)\<close> passes its keyword arguments on to \<open>get_output_path\<close>, which
  takes none: a non-empty \<open>kwargs\<close> is a \<open>TypeError\<close>. The entries of the result are
  evaluated in the order of the dictionary display; \<open>py_split\<close> never returns an empty
  list, so the index \<open>[-1]\<close> is always in range.\<close>

definition extract_fn :: "('buf, 'x) extractor_host_scheme \<Rightarrow> BaseExtractor \<Rightarrow> string \<Rightarrow> 'kw list
                       \<Rightarrow> error + ExtractionResult" where
  "extract_fn h self url kwargs =
     (if kwargs \<noteq> [] then Inl TypeError
      else
        let output_dir = get_output_path self url;
            cmd = extract_cmd self url
        in case exec h self cmd output_dir of
             Inl e \<Rightarrow> Inl e
           | Inr proc \<Rightarrow>
               (case decode h (proc_stdout proc) of
                  None \<Rightarrow> Inl UnicodeDecodeError
                | Some out \<Rightarrow>
                    (case decode h (proc_stderr proc) of
                       None \<Rightarrow> Inl UnicodeDecodeError
                     | Some err \<Rightarrow>
                         Inr \<lparr>status = (if proc_returncode proc = 0 then ''succeeded'' else ''failed''),
                              output_entry = last (py_split newline (py_strip out)),
                              output_files = py_list (Path_glob h output_dir ''*.*''),
                              stdout = py_strip out,
                              stderr = py_strip err,
                              returncode = proc_returncode proc\<rparr>)))"

text \<open>The specification's reading of the \<open>output\<close> entry: the last line of the captured
  standard output that is not the empty string, if there is one.\<close>

definition last_nonempty_line :: "string \<Rightarrow> string option" where
  "last_nonempty_line s =
     (case filter (\<lambda>l. l \<noteq> []) (py_split newline s) of
        [] \<Rightarrow> None
      | l # ls \<Rightarrow> Some (last (l # ls)))"


text \<open>\<open>'\n'.join(ls)\<close>, the inverse of splitting at newlines, and the lists of lines in
  which no line begins or ends with a whitespace character.\<close>

fun join_lines :: "string list \<Rightarrow> string" where
  "join_lines [] = []"
| "join_lines [l] = l"
| "join_lines (l # m # ls) = l @ newline @ join_lines (m # ls)"

definition lines_trimmed :: "string list \<Rightarrow> bool" where
  "lines_trimmed ls \<longleftrightarrow> (\<forall>l \<in> set ls. l \<noteq> [] \<longrightarrow> \<not> is_space (hd l) \<and> \<not> is_space (last l))"


section \<open>plugins\_auth/ldap/settings.py\<close>

record LdapConfig =
  LDAP_ENABLED :: bool
  LDAP_SERVER_URI :: "string option"
  LDAP_BIND_DN :: "string option"
  LDAP_BIND_PASSWORD :: "string option"
  LDAP_USER_BASE :: "string option"
  LDAP_USER_FILTER :: "string option"
  LDAP_CREATE_SUPERUSER :: bool
  LDAP_USERNAME_ATTR :: "string option"
  LDAP_FIRSTNAME_ATTR :: "string option"
  LDAP_LASTNAME_ATTR :: "string option"
  LDAP_EMAIL_ATTR :: "string option"

definition ldap_not_installed_warning :: string where
  "ldap_not_installed_warning =
     ''[X] Error: Found LDAP=True config but LDAP packages not installed. You may need to run: pip install archivebox[ldap]''
     @ newline @ newline"

text \<open>The \<open>mode='after'\<close> validator. \<open>LDAP_LIB\<close> tells whether the module-level import of
  the LDAP packages succeeded (\<open>LDAP_LIB is not None\<close>). The result is the raised error or
  the validated instance, together with what was written to \<open>sys.stderr\<close>.\<close>

definition validate_ldap_config :: "bool \<Rightarrow> LdapConfig \<Rightarrow> (error + LdapConfig) \<times> string list" where
  "validate_ldap_config LDAP_LIB self =
     (let (self1, written) =
            (if LDAP_ENABLED self \<and> \<not> LDAP_LIB
             then (self\<lparr>LDAP_ENABLED := False\<rparr>, [ldap_not_installed_warning])
             else (self, []))
      in if LDAP_ENABLED self1
         then (if truthy (LDAP_SERVER_URI self1)
                  \<and> truthy (LDAP_BIND_DN self1)
                  \<and> truthy (LDAP_BIND_PASSWORD self1)
                  \<and> truthy (LDAP_USER_BASE self1)
                  \<and> truthy (LDAP_USER_FILTER self1)
               then (Inr self1, written)
               else (Inl (AssertionError ''LDAP_* config options must all be set if LDAP_ENABLED=True''),
                     written))
         else (Inr self1, written))"

text \<open>\<open>LdapConfig(...)\<close> from the field values: an error raised by the model validator
  reaches the caller as pydantic's \<open>ValidationError\<close>.\<close>

definition construct_LdapConfig :: "bool \<Rightarrow> LdapConfig \<Rightarrow> (error + LdapConfig) \<times> string list" where
  "construct_LdapConfig LDAP_LIB values =
     (case validate_ldap_config LDAP_LIB values of
        (Inl e, written) \<Rightarrow> (Inl ValidationError, written)
      | (Inr self, written) \<Rightarrow> (Inr self, written))"

definition AUTHENTICATION_BACKENDS :: "LdapConfig \<Rightarrow> string list" where
  "AUTHENTICATION_BACKENDS self =
     [''django.contrib.auth.backends.ModelBackend'',
      ''django_auth_ldap.backend.LDAPBackend'']"


section \<open>plugins\_pkg/playwright/binproviders.py\<close>

text \<open>
  What the provider sees of its host. \<open>fs_glob dir pattern\<close> is what
  \<open>Path(dir).glob(pattern)\<close> yields, in the order the filesystem lists it;
  \<open>mkdir dir\<close> is the error, if any, that \<open>Path(dir).mkdir(parents=True, exist_ok=True)\<close>
  raises (for instance \<open>FileExistsError\<close> when \<open>dir\<close> is a regular file); \<open>HOME\<close> is what
  \<open>~\<close> expands to;
  \<open>bin_abspath\<close> is the \<open>pydantic_pkgr\<close> lookup on the search path \<open>env.PATH\<close>;
  \<open>binprovider_exec\<close> is the inherited \<open>self.exec\<close>, which runs a subprocess in text mode;
  \<open>get_packages\<close> is the inherited lookup of the packages to install for a binary name;
  \<open>INSTALLER_BIN_ABSPATH\<close> is the loaded path of the playwright binary (\<open>None\<close> if loading
  it failed) and \<open>SYS_PIP_INSTALLER_BIN_ABSPATH\<close> that of the pip provider.
  Each query is answered as of the moment the code makes it.
\<close>

record host =
  PLAYWRIGHT_BROWSERS_PATH :: "string option"
  isdir :: "string \<Rightarrow> bool"
  isfile :: "string \<Rightarrow> bool"
  access_X_OK :: "string \<Rightarrow> bool"
  HOME :: string
  OPERATING_SYSTEM :: string
  platform_system :: string
  fs_glob :: "string \<Rightarrow> string \<Rightarrow> string list"
  mkdir :: "string \<Rightarrow> os_error option"
  bin_abspath :: "string \<Rightarrow> string option"
  binprovider_exec :: "string \<Rightarrow> string list \<Rightarrow> string CompletedProcess"
  get_packages :: "string \<Rightarrow> string list"
  INSTALLER_BIN_ABSPATH :: "string option"
  SYS_PIP_INSTALLER_BIN_ABSPATH :: "string option"
  LIB_DIR :: string
  DEFAULT_LIB_DIR :: string
  DEFAULT_ENV_PATH :: string

text \<open>The mutable part of the provider: its \<open>PATH\<close> field and the class-level cache
  \<open>_browser_abspaths\<close>.\<close>

record PlaywrightBinProvider =
  PATH :: string
  browser_abspaths :: "string \<Rightarrow> string option"

definition MACOS_PLAYWRIGHT_CACHE_DIR :: string where
  "MACOS_PLAYWRIGHT_CACHE_DIR = ''~/Library/Caches/ms-playwright''"

definition LINUX_PLAYWRIGHT_CACHE_DIR :: string where
  "LINUX_PLAYWRIGHT_CACHE_DIR = ''~/.cache/ms-playwright''"

text \<open>\<open>Path.expanduser\<close> for a path that is \<open>~\<close> or starts with \<open>~/\<close>.\<close>

definition expanduser :: "host \<Rightarrow> string \<Rightarrow> string" where
  "expanduser h p = (if p = ''~'' \<or> prefix ''~/'' p then Path (HOME h @ drop 1 p) else p)"

definition playwright_browsers_dir :: "host \<Rightarrow> string" where
  "playwright_browsers_dir h =
     (let default_dir = (if OPERATING_SYSTEM h = ''darwin''
                         then expanduser h MACOS_PLAYWRIGHT_CACHE_DIR
                         else expanduser h LINUX_PLAYWRIGHT_CACHE_DIR)
      in case PLAYWRIGHT_BROWSERS_PATH h of
           None \<Rightarrow> default_dir
         | Some dir_path \<Rightarrow>
             if dir_path \<noteq> [] \<and> isdir h dir_path then Path dir_path else default_dir)"

text \<open>\<open>setup_fn\<close> is the method \<open>setup\<close> (a reserved word here): the \<open>PATH\<close> update
  happens before the assertion, so it is kept when the assertion fails; then the browsers
  directory is created (a path is always true, so the \<open>if\<close> around the \<open>mkdir\<close> always
  holds), which may fail with an error of the operating system.\<close>

definition setup_fn :: "host \<Rightarrow> PlaywrightBinProvider \<Rightarrow> error option \<times> PlaywrightBinProvider" where
  "setup_fn h self =
     (let self1 = (if LIB_DIR h \<noteq> DEFAULT_LIB_DIR h
                   then self\<lparr>PATH := LIB_DIR h @ ''/bin:'' @ DEFAULT_ENV_PATH h\<rparr>
                   else self)
      in case SYS_PIP_INSTALLER_BIN_ABSPATH h of
           None \<Rightarrow> (Some (AssertionError ''Pip bin provider not initialized''), self1)
         | Some pip \<Rightarrow>
             (case mkdir h (playwright_browsers_dir h) of
                Some e \<Rightarrow> (Some (OSError e), self1)
              | None \<Rightarrow> (None, self1)))"

text \<open>The order of \<open>sorted(...)\<close> on paths: \<open>pathlib\<close> compares the lists of path components,
  and Python compares lists and strings lexicographically by code point.\<close>

definition path_parts :: "string \<Rightarrow> string list" where
  "path_parts p = py_split ''/'' p"

definition sorted_paths :: "string list \<Rightarrow> string list" where
  "sorted_paths ps = sort_key path_parts ps"

text \<open>The loop over the sorted glob result on platforms other than macOS.\<close>

fun linux_browser_bins :: "string list \<Rightarrow> string list" where
  "linux_browser_bins [] = []"
| "linux_browser_bins (path # rest) =
     (if py_in ''xdg-settings'' path then linux_browser_bins rest
      else if py_in ''ffmpeg'' path then linux_browser_bins rest
      else if py_in ''/chrom'' path \<and> py_in ''chrom'' (py_lower (after_last_slash path))
           then path # linux_browser_bins rest
           else linux_browser_bins rest)"

definition installed_browser_bins :: "host \<Rightarrow> string \<Rightarrow> string list" where
  "installed_browser_bins h browser_name0 =
     (let browser_name = (if browser_name0 = ''chrome'' then ''chromium'' else browser_name0)
      in if py_lower (platform_system h) = ''darwin''
         then sorted_paths (fs_glob h (playwright_browsers_dir h)
                              (browser_name @ ''-*/*-mac*/*.app/Contents/MacOS/*''))
         else linux_browser_bins
                (sorted_paths (fs_glob h (playwright_browsers_dir h)
                                 (browser_name @ ''-*/*-linux/*''))))"

definition only_chrome_abspath_msg :: string where
  "only_chrome_abspath_msg =
     ''Only chrome is supported using the @puppeteer/browsers install method currently.''"

definition only_chrome_install_msg :: string where
  "only_chrome_install_msg =
     ''Only chrome is supported using the playwright install method currently.''"

text \<open>The candidates of \<open>default_abspath_handler\<close>: the installed browser binaries (of any
  browser: the call passes no name, so the default \<open>"*"\<close> applies) whose path contains the
  binary name.\<close>

definition matching_bins :: "host \<Rightarrow> string \<Rightarrow> string list" where
  "matching_bins h bin_name =
     filter (\<lambda>abspath. py_in bin_name abspath) (installed_browser_bins h ''*'')"

definition default_abspath_handler ::
  "host \<Rightarrow> PlaywrightBinProvider \<Rightarrow> string \<Rightarrow> (error + string option) \<times> PlaywrightBinProvider" where
  "default_abspath_handler h self bin_name =
     (if bin_name \<noteq> ''chrome'' then (Inl (AssertionError only_chrome_abspath_msg), self)
      else (case browser_abspaths self bin_name of
             Some cached \<Rightarrow> (Inr (Some cached), self)
           | None \<Rightarrow>
               (if matching_bins h bin_name \<noteq> []
                then (let newest_bin = last (matching_bins h bin_name)
                      in (Inr (Some newest_bin),
                          self\<lparr>browser_abspaths := (browser_abspaths self)(bin_name \<mapsto> newest_bin)\<rparr>))
                else (case bin_abspath h ''google-chrome-stable'' of
                        Some abspath \<Rightarrow>
                          (Inr (Some abspath),
                           self\<lparr>browser_abspaths := (browser_abspaths self)(bin_name \<mapsto> abspath)\<rparr>)
                      | None \<Rightarrow> (Inr None, self)))))"

text \<open>The lines of the install output that refer to the browser binary.\<close>

definition output_lines :: "string \<Rightarrow> string list" where
  "output_lines out =
     filter (\<lambda>line. py_in ''/chrom'' line
                    \<and> py_in ''chrom'' (py_lower (after_last_slash line))
                    \<and> \<not> py_in ''xdg-settings'' line
                    \<and> \<not> py_in ''ffmpeg'' line)
            (py_split newline (py_strip out))"

text \<open>\<open>dir / relpath\<close>: the two are joined as \<open>os.path.join\<close> does (an absolute right
  operand replaces the left one) and the result is a path again.\<close>

definition path_join :: "string \<Rightarrow> string \<Rightarrow> string" where
  "path_join dir relpath =
     Path (if prefix ''/'' relpath then relpath
           else if dir = [] \<or> last dir = CHR ''/'' then dir @ relpath
           else dir @ ''/'' @ relpath)"

text \<open>The sub-step \<open>playwright install-deps\<close>, skipped on macOS: it returns what it
  prints.\<close>

definition install_deps :: "host \<Rightarrow> string \<Rightarrow> string list" where
  "install_deps h installer =
     (if py_lower (platform_system h) \<noteq> ''darwin''
      then (let proc = binprovider_exec h installer [''install-deps'']
            in if proc_returncode proc \<noteq> 0
               then [py_strip (proc_stdout proc), py_strip (proc_stderr proc)]
               else [])
      else [])"

text \<open>The cache update after a successful install.\<close>

definition cache_installed :: "host \<Rightarrow> PlaywrightBinProvider \<Rightarrow> string \<Rightarrow> string \<Rightarrow> PlaywrightBinProvider" where
  "cache_installed h self bin_name out =
     (case output_lines out of
        [] \<Rightarrow> self
      | line # others \<Rightarrow>
          (let relpath = last (py_split (playwright_browsers_dir h) line);
               abspath = path_join (playwright_browsers_dir h) relpath
           in if isfile h abspath \<and> access_X_OK h abspath
              then self\<lparr>browser_abspaths := (browser_abspaths self)(bin_name \<mapsto> abspath)\<rparr>
              else self))"

text \<open>\<open>packages or self.get_packages(bin_name)\<close>: \<open>None\<close> and the empty list are false.\<close>

definition packages_or_default :: "host \<Rightarrow> string \<Rightarrow> string list option \<Rightarrow> string list" where
  "packages_or_default h bin_name packages0 =
     (case packages0 of
        None \<Rightarrow> get_packages h bin_name
      | Some ps \<Rightarrow> if ps \<noteq> [] then ps else get_packages h bin_name)"

text \<open>\<open>default_install_handler\<close>: the result is the raised error or the returned text, the
  provider afterwards, and the lines printed.\<close>

definition default_install_handler ::
  "host \<Rightarrow> PlaywrightBinProvider \<Rightarrow> string \<Rightarrow> string list option
   \<Rightarrow> (error + string) \<times> PlaywrightBinProvider \<times> string list" where
  "default_install_handler h self bin_name packages0 =
     (case setup_fn h self of
        (Some e, self1) \<Rightarrow> (Inl e, self1, [])
      | (None, self1) \<Rightarrow>
          (if bin_name \<noteq> ''chrome'' then (Inl (AssertionError only_chrome_install_msg), self1, [])
           else (case INSTALLER_BIN_ABSPATH h of
                 None \<Rightarrow> (Inl InstallUnavailable, self1, [])
               | Some installer \<Rightarrow>
                   (let packages = packages_or_default h bin_name packages0;
                        printed = install_deps h installer;
                        proc = binprovider_exec h installer (''install'' # packages)
                    in if proc_returncode proc \<noteq> 0
                       then (Inl (InstallReturncode (proc_returncode proc) packages), self1,
                             printed @ [py_strip (proc_stdout proc), py_strip (proc_stderr proc)])
                       else (Inr (py_strip (py_strip (proc_stderr proc) @ newline
                                            @ py_strip (proc_stdout proc))),
                             cache_installed h self1 bin_name (proc_stdout proc),
                             printed)))))"


section \<open>Concrete hosts and inputs\<close>

text \<open>A wget extractor as construction leaves it, and a host whose only binary is a stub
  that exits with a given code and output; \<open>files\<close> is what any glob finds. Its codec
  rejects a buffer that holds the byte 255, which no UTF-8 text contains.\<close>

definition wget_kwargs :: BaseExtractor_kwargs where
  "wget_kwargs = \<lparr>kw_name = ''wget'', kw_binary = ''wget'',
      kw_default_args = Some [''--no-check-certificate''], kw_extra_args = Some [],
      kw_args = None\<rparr>"

definition wget_extractor :: BaseExtractor where
  "wget_extractor = \<lparr>name = ''wget'', binary = ''wget'',
      default_args = [''--no-check-certificate''], extra_args = [],
      args = Some [''--no-check-certificate'']\<rparr>"

definition stub_binary ::
  "int \<Rightarrow> string \<Rightarrow> string \<Rightarrow> string list \<Rightarrow> string \<Rightarrow> error + string CompletedProcess" where
  "stub_binary rc out err cmd pwd =
     Inr \<lparr>proc_returncode = rc, proc_stdout = out, proc_stderr = err\<rparr>"

definition stub_host :: "string list \<Rightarrow> int \<Rightarrow> string \<Rightarrow> string \<Rightarrow> string extractor_host" where
  "stub_host files rc out err =
     \<lparr>glob = (\<lambda>dir pattern. files),
      BINARIES = (\<lambda>b. if b = ''wget'' then Some (stub_binary rc out err) else None),
      decode = (\<lambda>b. if CHR 0xFF \<in> set b then None else Some b)\<rparr>"

text \<open>An LDAP configuration that enables LDAP and sets nothing else.\<close>

definition ldap_enabled_unset :: LdapConfig where
  "ldap_enabled_unset =
     \<lparr>LDAP_ENABLED = True, LDAP_SERVER_URI = None, LDAP_BIND_DN = None,
      LDAP_BIND_PASSWORD = None, LDAP_USER_BASE = None, LDAP_USER_FILTER = None,
      LDAP_CREATE_SUPERUSER = False, LDAP_USERNAME_ATTR = None, LDAP_FIRSTNAME_ATTR = None,
      LDAP_LASTNAME_ATTR = None, LDAP_EMAIL_ATTR = None\<rparr>"

text \<open>The condition of the assertion in \<open>validate_ldap_config\<close>.\<close>

definition ldap_complete :: "LdapConfig \<Rightarrow> bool" where
  "ldap_complete c \<longleftrightarrow>
     truthy (LDAP_SERVER_URI c) \<and> truthy (LDAP_BIND_DN c) \<and> truthy (LDAP_BIND_PASSWORD c)
     \<and> truthy (LDAP_USER_BASE c) \<and> truthy (LDAP_USER_FILTER c)"

text \<open>A host for the playwright provider: \<open>system\<close> is what \<open>platform.system()\<close> returns,
  \<open>found\<close> what the glob of that platform finds in the default browsers directory (these
  files exist and are executable), \<open>chrome_stable\<close> the place of \<open>google-chrome-stable\<close> on
  the search path, and the two processes are the results of \<open>install-deps\<close> and of
  \<open>install\<close>.\<close>

definition example_host ::
  "string \<Rightarrow> string list \<Rightarrow> string option \<Rightarrow> string CompletedProcess \<Rightarrow> string CompletedProcess
   \<Rightarrow> host" where
  "example_host system found chrome_stable deps_proc install_proc =
     \<lparr>PLAYWRIGHT_BROWSERS_PATH = None,
      isdir = (\<lambda>p. False),
      isfile = (\<lambda>p. List.member found p),
      access_X_OK = (\<lambda>p. List.member found p),
      HOME = ''/home/u'',
      OPERATING_SYSTEM = py_lower system,
      platform_system = system,
      fs_glob = (\<lambda>dir pattern.
         if dir = (if system = ''Darwin'' then ''/home/u/Library/Caches/ms-playwright''
                   else ''/home/u/.cache/ms-playwright'')
            \<and> pattern = (if system = ''Darwin'' then ''*-*/*-mac*/*.app/Contents/MacOS/*''
                          else ''*-*/*-linux/*'')
         then found else []),
      mkdir = (\<lambda>dir. None),
      bin_abspath = (\<lambda>n. if n = ''google-chrome-stable'' then chrome_stable else None),
      binprovider_exec = (\<lambda>b cmd. if cmd = [''install-deps''] then deps_proc else install_proc),
      get_packages = (\<lambda>n. if n = ''chrome'' then [''chromium''] else [n]),
      INSTALLER_BIN_ABSPATH = Some ''/usr/bin/playwright'',
      SYS_PIP_INSTALLER_BIN_ABSPATH = Some ''/usr/bin/pip'',
      LIB_DIR = ''/data/lib'',
      DEFAULT_LIB_DIR = ''/data/lib'',
      DEFAULT_ENV_PATH = ''/usr/bin:/bin''\<rparr>"

definition finished :: "int \<Rightarrow> string \<Rightarrow> string \<Rightarrow> string CompletedProcess" where
  "finished rc out err = \<lparr>proc_returncode = rc, proc_stdout = out, proc_stderr = err\<rparr>"

definition fresh_provider :: PlaywrightBinProvider where
  "fresh_provider = \<lparr>PATH = ''/data/lib/bin:/usr/bin:/bin'', browser_abspaths = Map.empty\<rparr>"

definition linux_found :: "string list" where
  "linux_found =
     [''/home/u/.cache/ms-playwright/ffmpeg-1010/ffmpeg-linux/ffmpeg'',
      ''/home/u/.cache/ms-playwright/chromium-1134/chrome-linux/chrome'',
      ''/home/u/.cache/ms-playwright/chromium-1097/chrome-linux/chrome'',
      ''/home/u/.cache/ms-playwright/chromium-1134/chrome-linux/xdg-settings'']"

definition darwin_found :: "string list" where
  "darwin_found =
     [''/home/u/Library/Caches/ms-playwright/chromium-1097/chrome-mac/ffmpeg.app/Contents/MacOS/ffmpeg'']"


text \<open>A Linux host where \<open>google-chrome-stable\<close> is on the search path, the glob of the
  browsers directory finds nothing, and the install prints the place of an executable
  \<open>chromium/chrome\<close> below that directory.\<close>

definition overwrite_host :: host where
  "overwrite_host =
     (example_host ''Linux'' [] (Some ''/usr/bin/google-chrome-stable'') (finished 0 [] [])
        (finished 0 ''chromium/chrome'' []))
       \<lparr>isfile := (\<lambda>p. p = ''/home/u/.cache/ms-playwright/chromium/chrome''),
        access_X_OK := (\<lambda>p. p = ''/home/u/.cache/ms-playwright/chromium/chrome'')\<rparr>"

text \<open>The host \<open>h\<close> with another result of the \<open>install-deps\<close> subprocess.\<close>

definition with_deps_result :: "host \<Rightarrow> string CompletedProcess \<Rightarrow> host" where
  "with_deps_result h deps =
     h\<lparr>binprovider_exec :=
         (\<lambda>b cmd. if cmd = [''install-deps''] then deps else binprovider_exec h b cmd)\<rparr>"


section \<open>Properties of the extractor\<close>

lemma should_extract_False: "should_extract h self snapshot = False"
  by (simp add: should_extract_def Path_glob_def)

text \<open>
  C1 (the code departs from the claim). The claim: \<open>should_extract\<close> is false when the
  output directory holds a file with an extension and true when the directory is empty or
  missing. The code tests the truth value of the generator that \<open>glob\<close> returns, not of
  what it yields, so \<open>should_extract\<close> is false on every input
  (\<open>should_extract_False\<close>); here it is false for the wget extractor on a host where the
  glob of its output directory finds nothing.
\<close>

theorem should_extract_empty_dir:
  "glob (stub_host [] 0 [] []) (get_output_path wget_extractor ()) ''*.*'' = []
   \<and> should_extract (stub_host [] 0 [] []) wget_extractor () = False"
  by (simp add: should_extract_def Path_glob_def stub_host_def)

text \<open>
  C2. Every extractor that construction returns has a materialised argument list without
  an empty string (the concatenation of the default and the extra arguments when no
  explicit list was passed); construction fails when a passed default, extra or explicit
  argument list contains an empty string; and it succeeds when the binary name is valid
  and no passed list contains one.
\<close>

theorem construct_no_empty_args:
  "(\<forall>self. construct BinName_ok kw = Inr self \<longrightarrow>
       (\<exists>a. args self = Some a \<and> [] \<notin> set a
            \<and> (kw_args kw = None \<longrightarrow> a = default_args self @ extra_args self)))
   \<and> ((\<exists>xs. (kw_default_args kw = Some xs \<or> kw_extra_args kw = Some xs \<or> kw_args kw = Some xs)
             \<and> [] \<in> set xs)
        \<longrightarrow> construct BinName_ok kw = Inl ValidationError)
   \<and> (BinName_ok (kw_binary kw)
        \<and> (\<forall>xs. kw_default_args kw = Some xs \<or> kw_extra_args kw = Some xs \<or> kw_args kw = Some xs
                 \<longrightarrow> [] \<notin> set xs)
        \<longrightarrow> (\<exists>self. construct BinName_ok kw = Inr self))"
  by (auto simp: construct_def CmdArgsList_field_def Optional_CmdArgsList_field_def
      validate_model_def no_empty_args_def list_all_iff
      split: option.splits sum.splits if_splits)

theorem construct_no_empty_args_witness:
  "construct (\<lambda>b. b \<noteq> []) wget_kwargs = Inr wget_extractor
   \<and> [] \<notin> set [''--no-check-certificate'']
   \<and> construct (\<lambda>b. b \<noteq> []) (wget_kwargs\<lparr>kw_extra_args := Some [''-q'', []]\<rparr>) = Inl ValidationError"
proof -
  have 1: "construct (\<lambda>b. b \<noteq> []) wget_kwargs = Inr wget_extractor"
    by (simp add: construct_def CmdArgsList_field_def Optional_CmdArgsList_field_def
        validate_model_def no_empty_args_def wget_kwargs_def wget_extractor_def)
  have 2: "\<exists>xs. (kw_default_args (wget_kwargs\<lparr>kw_extra_args := Some [''-q'', []]\<rparr>) = Some xs
                \<or> kw_extra_args (wget_kwargs\<lparr>kw_extra_args := Some [''-q'', []]\<rparr>) = Some xs
                \<or> kw_args (wget_kwargs\<lparr>kw_extra_args := Some [''-q'', []]\<rparr>) = Some xs)
              \<and> [] \<in> set xs"
    by (rule exI [of _ "[''-q'', []]"]) simp
  from construct_no_empty_args [of "\<lambda>b. b \<noteq> []" wget_kwargs]
       construct_no_empty_args [of "\<lambda>b. b \<noteq> []" "wget_kwargs\<lparr>kw_extra_args := Some [''-q'', []]\<rparr>"]
       1 2
  show ?thesis by simp
qed

text \<open>
  C5, as stated, fails: \<open>extract\<close> does not return a result for every subprocess outcome. A
  subprocess that exits with zero and writes a byte sequence that is not text makes
  \<open>decode()\<close> raise, and \<open>extract\<close> raises with it.
\<close>

theorem extract_undecodable_raises:
  "extract_fn (stub_host [] 0 [CHR 0xFF] []) wget_extractor ''https://example.com''
     ([] :: unit list) = Inl UnicodeDecodeError"
  by code_simp

text \<open>
  C5, amended. Once the subprocess has run, the exit code never decides whether \<open>extract\<close>
  raises. If both captured buffers decode, \<open>extract\<close> returns a result, whatever the exit
  code: the status is \<open>succeeded\<close> exactly when the exit code is zero and \<open>failed\<close> exactly
  when it is not, and the result carries the exit code and the stripped standard output
  and standard error. If one of the buffers does not decode, \<open>extract\<close> raises
  \<open>UnicodeDecodeError\<close>, for a zero exit code as for any other.
\<close>

theorem extract_status:
  assumes "exec h self (extract_cmd self url) (get_output_path self url) = Inr proc"
  shows "(\<forall>out err. decode h (proc_stdout proc) = Some out \<and> decode h (proc_stderr proc) = Some err
            \<longrightarrow> (\<exists>r. extract_fn h self url ([] :: 'kw list) = Inr r
                   \<and> (status r = ''succeeded'') = (proc_returncode proc = 0)
                   \<and> (status r = ''failed'') = (proc_returncode proc \<noteq> 0)
                   \<and> returncode r = proc_returncode proc
                   \<and> stdout r = py_strip out
                   \<and> stderr r = py_strip err))
       \<and> (decode h (proc_stdout proc) = None \<or> decode h (proc_stderr proc) = None
            \<longrightarrow> extract_fn h self url ([] :: 'kw list) = Inl UnicodeDecodeError)"
  using assms by (auto simp: extract_fn_def Let_def split: option.splits)

theorem extract_status_witness:
  "(\<exists>r. extract_fn (stub_host [] 1 ''out'' ''boom'') wget_extractor ''https://example.com''
           ([] :: unit list) = Inr r
        \<and> status r = ''failed''
        \<and> returncode r = 1
        \<and> stderr r = ''boom'')
   \<and> extract_fn (stub_host [] 1 [CHR 0xFF] ''boom'') wget_extractor ''https://example.com''
           ([] :: unit list) = Inl UnicodeDecodeError"
proof -
  let ?h = "stub_host [] 1 ''out'' ''boom''"
  let ?p = "\<lparr>proc_returncode = 1, proc_stdout = ''out'', proc_stderr = ''boom''\<rparr>"
  let ?g = "stub_host [] 1 [CHR 0xFF] ''boom''"
  let ?q = "\<lparr>proc_returncode = 1, proc_stdout = [CHR 0xFF], proc_stderr = ''boom''\<rparr>"
  have 1: "exec ?h wget_extractor (extract_cmd wget_extractor ''https://example.com'')
             (get_output_path wget_extractor ''https://example.com'') = Inr ?p"
    by (simp add: exec_def stub_host_def stub_binary_def wget_extractor_def)
  have 2: "decode ?h (proc_stdout ?p) = Some ''out''"
    by (simp add: stub_host_def)
  have 3: "decode ?h (proc_stderr ?p) = Some ''boom''"
    by (simp add: stub_host_def)
  have 4: "py_strip ''boom'' = ''boom''"
    by (simp add: py_strip_def is_space_def)
  have 5: "exec ?g wget_extractor (extract_cmd wget_extractor ''https://example.com'')
             (get_output_path wget_extractor ''https://example.com'') = Inr ?q"
    by (simp add: exec_def stub_host_def stub_binary_def wget_extractor_def)
  have 6: "decode ?g (proc_stdout ?q) = None"
    by (simp add: stub_host_def)
  from extract_status [OF 1, where ?'kw = unit] 2 3 4
  have a: "\<exists>r. extract_fn ?h wget_extractor ''https://example.com'' ([] :: unit list) = Inr r
             \<and> status r = ''failed'' \<and> returncode r = 1 \<and> stderr r = ''boom''"
    by auto
  from extract_status [OF 5, where ?'kw = unit] 6
  have b: "extract_fn ?g wget_extractor ''https://example.com'' ([] :: unit list)
             = Inl UnicodeDecodeError"
    by simp
  from a b show ?thesis by simp
qed


subsection \<open>The last line of the stripped output\<close>

lemma py_split_not_Nil: "py_split sep s \<noteq> []"
  by (induction sep s rule: py_split.induct) (auto split: list.splits)

lemma py_split_newline_Cons:
  "py_split newline (x # xs) =
     (if x = CHR 0x0A then [] # py_split newline xs
      else (case py_split newline xs of [] \<Rightarrow> [[x]] | p # ps \<Rightarrow> (x # p) # ps))"
  by (auto simp: newline_def)

declare py_split.simps(2) [simp del]

lemma is_space_newline: "is_space (CHR 0x0A)"
  by (simp add: is_space_def)

lemma join_Cons_char: "ps \<noteq> [] \<Longrightarrow> join_lines ((x # hd ps) # tl ps) = x # join_lines ps"
  by (cases ps rule: join_lines.cases) simp_all

lemma join_split: "join_lines (py_split newline s) = s"
proof (induction s)
  case Nil
  show ?case by simp
next
  case (Cons x xs)
  obtain p ps where sp: "py_split newline xs = p # ps"
    using py_split_not_Nil by (cases "py_split newline xs") auto
  show ?case
  proof (cases "x = CHR 0x0A")
    case True
    with sp Cons show ?thesis
      by (simp add: py_split_newline_Cons) (simp add: newline_def)
  next
    case False
    have "join_lines ((x # p) # ps) = x # join_lines (p # ps)"
      using join_Cons_char [of "p # ps" x] by simp
    with False sp Cons show ?thesis
      by (simp add: py_split_newline_Cons)
  qed
qed

lemma split_lines_no_newline: "l \<in> set (py_split newline s) \<Longrightarrow> CHR 0x0A \<notin> set l"
proof (induction s arbitrary: l)
  case Nil
  then show ?case by simp
next
  case (Cons x xs)
  then show ?case
    by (auto simp: py_split_newline_Cons split: if_splits list.splits)
qed

lemma split_no_newline: "CHR 0x0A \<notin> set l \<Longrightarrow> py_split newline l = [l]"
  by (induction l) (auto simp: py_split_newline_Cons)

lemma newline_append: "newline @ s = CHR 0x0A # s"
  by (simp add: newline_def)

lemma split_append_newline:
  "CHR 0x0A \<notin> set l \<Longrightarrow> py_split newline (l @ newline @ rest) = l # py_split newline rest"
proof (induction l)
  case Nil
  show ?case by (simp add: newline_append py_split_newline_Cons)
next
  case (Cons x xs)
  then show ?case by (auto simp: py_split_newline_Cons)
qed

lemma split_join:
  "ls \<noteq> [] \<Longrightarrow> \<forall>l \<in> set ls. CHR 0x0A \<notin> set l \<Longrightarrow> py_split newline (join_lines ls) = ls"
  by (induction ls rule: join_lines.induct)
    (simp_all add: split_no_newline split_append_newline)

lemma lstrip_join:
  "lines_trimmed ls \<Longrightarrow> \<exists>l \<in> set ls. l \<noteq> [] \<Longrightarrow>
     dropWhile is_space (join_lines ls) = join_lines (dropWhile (\<lambda>l. l = []) ls)"
proof (induction ls rule: join_lines.induct)
  case 1
  then show ?case by simp
next
  case (2 l)
  then show ?case by (cases l) (auto simp: lines_trimmed_def)
next
  case (3 l m ls)
  show ?case
  proof (cases l)
    case Nil
    with 3 show ?thesis
      by (simp add: lines_trimmed_def newline_def is_space_newline)
  next
    case (Cons x xs)
    with 3 show ?thesis by (auto simp: lines_trimmed_def)
  qed
qed

lemma join_snoc: "ls \<noteq> [] \<Longrightarrow> join_lines (ls @ [l]) = join_lines ls @ newline @ l"
  by (induction ls rule: join_lines.induct) simp_all

lemma join_snoc2: "join_lines (ls @ [m, l]) = join_lines (ls @ [m]) @ newline @ l"
  using join_snoc [of "ls @ [m]" l] by simp

lemma rev_join: "rev (join_lines ls) = join_lines (map rev (rev ls))"
  by (induction ls rule: join_lines.induct) (simp_all add: join_snoc2 newline_def)

lemma lines_trimmed_rev: "lines_trimmed ls \<Longrightarrow> lines_trimmed (map rev (rev ls))"
  by (auto simp: lines_trimmed_def hd_rev last_rev)

lemma rstrip_join:
  assumes "lines_trimmed ls" and "\<exists>l \<in> set ls. l \<noteq> []"
  shows "rev (dropWhile is_space (rev (join_lines ls)))
           = join_lines (rev (dropWhile (\<lambda>l. l = []) (rev ls)))"
proof -
  have ne: "\<exists>l \<in> set (map rev (rev ls)). l \<noteq> []"
    using assms(2) by auto
  have "dropWhile is_space (rev (join_lines ls))
          = join_lines (dropWhile (\<lambda>l. l = []) (map rev (rev ls)))"
    using lstrip_join [OF lines_trimmed_rev [OF assms(1)] ne] by (simp add: rev_join)
  also have "dropWhile (\<lambda>l. l = []) (map rev (rev ls))
               = map rev (dropWhile (\<lambda>l. l = []) (rev ls))"
    by (simp add: dropWhile_map comp_def)
  finally show ?thesis
    by (simp add: rev_join rev_map comp_def)
qed

lemma dropWhile_empty_keeps:
  "\<exists>l \<in> set ls. l \<noteq> [] \<Longrightarrow> \<exists>l \<in> set (dropWhile (\<lambda>l. l = []) ls). l \<noteq> []"
  by (induction ls) auto

lemma lines_trimmed_dropWhile: "lines_trimmed ls \<Longrightarrow> lines_trimmed (dropWhile P ls)"
  by (auto simp: lines_trimmed_def dest: set_dropWhileD)

lemma strip_join:
  assumes "lines_trimmed ls" and "\<exists>l \<in> set ls. l \<noteq> []"
  shows "py_strip (join_lines ls)
           = join_lines (rev (dropWhile (\<lambda>l. l = []) (rev (dropWhile (\<lambda>l. l = []) ls))))"
  unfolding py_strip_def lstrip_join [OF assms]
  by (rule rstrip_join [OF lines_trimmed_dropWhile [OF assms(1)] dropWhile_empty_keeps [OF assms(2)]])

lemma hd_dropWhile_empty:
  "hd (dropWhile (\<lambda>l. l = []) zs) = hd (filter (\<lambda>l. l \<noteq> []) zs)"
  by (induction zs) simp_all

lemma filter_dropWhile_empty:
  "filter (\<lambda>l. l \<noteq> []) (dropWhile (\<lambda>l. l = []) zs) = filter (\<lambda>l. l \<noteq> []) zs"
  by (induction zs) simp_all

lemma last_trimmed_lines:
  assumes "\<exists>l \<in> set ls. l \<noteq> ([]::string)"
  shows "rev (dropWhile (\<lambda>l. l = []) (rev (dropWhile (\<lambda>l. l = []) ls))) \<noteq> []"
    and "last (rev (dropWhile (\<lambda>l. l = []) (rev (dropWhile (\<lambda>l. l = []) ls))))
           = last (filter (\<lambda>l. l \<noteq> []) ls)"
proof -
  let ?ls' = "dropWhile (\<lambda>l. l = []) ls"
  have ne: "\<exists>l \<in> set (rev ?ls'). l \<noteq> []"
    using dropWhile_empty_keeps [OF assms] by simp
  then show "rev (dropWhile (\<lambda>l. l = []) (rev ?ls')) \<noteq> []"
    by auto
  have "last (rev (dropWhile (\<lambda>l. l = []) (rev ?ls'))) = hd (filter (\<lambda>l. l \<noteq> []) (rev ?ls'))"
    by (simp add: last_rev hd_dropWhile_empty)
  also have "\<dots> = last (filter (\<lambda>l. l \<noteq> []) ?ls')"
    by (simp add: rev_filter [symmetric] hd_rev)
  finally show "last (rev (dropWhile (\<lambda>l. l = []) (rev ?ls'))) = last (filter (\<lambda>l. l \<noteq> []) ls)"
    by (simp add: filter_dropWhile_empty)
qed

lemma join_all_empty: "\<forall>l \<in> set ls. l = [] \<Longrightarrow> c \<in> set (join_lines ls) \<Longrightarrow> c = CHR 0x0A"
  by (induction ls rule: join_lines.induct) (auto simp: newline_def)


lemma all_empty_case:
  assumes all: "\<forall>l \<in> set (py_split newline s). l = []"
  shows "py_strip s = []" and "last_nonempty_line s = None"
proof -
  have "\<And>c. c \<in> set (join_lines (py_split newline s)) \<Longrightarrow> c = CHR 0x0A"
    by (rule join_all_empty [OF all])
  then have nl: "\<And>c. c \<in> set s \<Longrightarrow> c = CHR 0x0A"
    by (simp only: join_split)
  have sp: "\<And>c. c \<in> set s \<Longrightarrow> is_space c"
    using nl is_space_newline by blast
  have "dropWhile is_space s = []"
    using sp by simp
  then have "rev (dropWhile is_space (rev (dropWhile is_space s))) = []"
    by (simp only: rev.simps dropWhile.simps)
  then show "py_strip s = []"
    by (simp only: py_strip_def)
  have "filter (\<lambda>l. l \<noteq> []) (py_split newline s) = []"
    using all by (simp add: filter_empty_conv)
  then show "last_nonempty_line s = None"
    by (simp add: last_nonempty_line_def)
qed


lemma trimmed_lines_subset:
  "l \<in> set (rev (dropWhile P (rev (dropWhile P ls)))) \<Longrightarrow> l \<in> set ls"
proof -
  assume "l \<in> set (rev (dropWhile P (rev (dropWhile P ls))))"
  then have "l \<in> set (dropWhile P (rev (dropWhile P ls)))"
    by (simp only: set_rev)
  then have "l \<in> set (rev (dropWhile P ls))"
    by (rule set_dropWhileD)
  then have "l \<in> set (dropWhile P ls)"
    by (simp only: set_rev)
  then show "l \<in> set ls"
    by (rule set_dropWhileD)
qed

lemma nonempty_case:
  assumes tr: "lines_trimmed (py_split newline s)"
    and ne: "\<exists>l \<in> set (py_split newline s). l \<noteq> []"
  shows "last (py_split newline (py_strip s))
           = last (filter (\<lambda>l. l \<noteq> []) (py_split newline s))"
proof -
  let ?ls = "py_split newline s"
  let ?mid = "rev (dropWhile (\<lambda>l. l = []) (rev (dropWhile (\<lambda>l. l = []) ?ls)))"
  have "py_strip (join_lines ?ls) = join_lines ?mid"
    by (rule strip_join [OF tr ne])
  then have strip: "py_strip s = join_lines ?mid"
    by (simp only: join_split)
  have no_nl: "\<forall>l \<in> set ?mid. CHR 0x0A \<notin> set l"
  proof
    fix l assume "l \<in> set ?mid"
    then have "l \<in> set ?ls"
      by (rule trimmed_lines_subset)
    then show "CHR 0x0A \<notin> set l"
      by (rule split_lines_no_newline)
  qed
  have mid_ne: "?mid \<noteq> []"
    by (rule last_trimmed_lines(1) [OF ne])
  have "py_split newline (join_lines ?mid) = ?mid"
    by (rule split_join [OF mid_ne no_nl])
  then have "py_split newline (py_strip s) = ?mid"
    by (simp only: strip)
  then have "last (py_split newline (py_strip s)) = last ?mid"
    by (simp only:)
  also have "\<dots> = last (filter (\<lambda>l. l \<noteq> []) ?ls)"
    by (rule last_trimmed_lines(2) [OF ne])
  finally show ?thesis .
qed


lemma last_line_of_stripped:
  assumes "lines_trimmed (py_split newline s)"
  shows "last (py_split newline (py_strip s))
           = (case last_nonempty_line s of None \<Rightarrow> [] | Some l \<Rightarrow> l)"
proof (cases "\<exists>l \<in> set (py_split newline s). l \<noteq> []")
  case True
  have eq: "last (py_split newline (py_strip s))
              = last (filter (\<lambda>l. l \<noteq> []) (py_split newline s))"
    by (rule nonempty_case [OF assms True])
  have "filter (\<lambda>l. l \<noteq> []) (py_split newline s) \<noteq> []"
    using True by (simp add: filter_empty_conv)
  then obtain l ls' where f: "filter (\<lambda>l. l \<noteq> []) (py_split newline s) = l # ls'"
    by (cases "filter (\<lambda>l. l \<noteq> []) (py_split newline s)") auto
  have "last_nonempty_line s = Some (last (l # ls'))"
    by (simp add: last_nonempty_line_def f)
  then show ?thesis
    by (simp only: eq f option.case)
next
  case False
  then have all: "\<forall>l \<in> set (py_split newline s). l = []"
    by simp
  have "py_split newline (py_strip s) = [[]]"
    by (simp only: all_empty_case(1) [OF all] py_split.simps(1))
  then have "last (py_split newline (py_strip s)) = []"
    by simp
  then show ?thesis
    by (simp only: all_empty_case(2) [OF all] option.case)
qed

lemma last_line_no_newline: "CHR 0x0A \<notin> set (last (py_split newline s))"
  using split_lines_no_newline [of "last (py_split newline s)" s] py_split_not_Nil [of newline s]
  by simp

declare py_split.simps(2) [simp]

text \<open>
  C8, as stated, fails: for the standard output \<open>"  ok"\<close> the last non-empty line is
  \<open>"  ok"\<close>, and the \<open>output\<close> entry is \<open>"ok"\<close>.
\<close>

theorem output_not_last_nonempty_line:
  "map_sum id output_entry
      (extract_fn (stub_host [] 0 ''  ok'' []) wget_extractor ''https://example.com''
         ([] :: unit list)) = Inr ''ok''
   \<and> last_nonempty_line ''  ok'' = Some ''  ok''"
  by code_simp

text \<open>
  C8, amended. Whenever the subprocess has run and its buffers decode, the \<open>output\<close>
  entry is the last line of the decoded standard output after leading and trailing
  whitespace has been stripped from the whole text; it contains no newline. It is the
  last non-empty line of the standard output whenever no line of that output begins or
  ends with a whitespace character (and the empty string when such an output has no
  non-empty line).
\<close>

theorem extract_output:
  assumes "exec h self (extract_cmd self url) (get_output_path self url) = Inr proc"
    and "decode h (proc_stdout proc) = Some out"
    and "decode h (proc_stderr proc) = Some err"
  shows "\<exists>r. extract_fn h self url [] = Inr r
           \<and> output_entry r = last (py_split newline (py_strip out))
           \<and> CHR 0x0A \<notin> set (output_entry r)
           \<and> (lines_trimmed (py_split newline out) \<longrightarrow>
                output_entry r = (case last_nonempty_line out of None \<Rightarrow> [] | Some l \<Rightarrow> l))"
  using assms last_line_of_stripped [of out] last_line_no_newline [of "py_strip out"]
  by (simp add: extract_fn_def Let_def)

theorem extract_output_witness:
  "\<exists>r. extract_fn (stub_host [''wget/index.html''] 0 ''Saving to index.html\<newline>\<newline>FINISHED\<newline>'' [])
           wget_extractor ''https://example.com'' ([] :: unit list) = Inr r
        \<and> output_entry r = ''FINISHED''
        \<and> last_nonempty_line ''Saving to index.html\<newline>\<newline>FINISHED\<newline>'' = Some ''FINISHED''"
proof -
  let ?out = "''Saving to index.html\<newline>\<newline>FINISHED\<newline>''"
  let ?h = "stub_host [''wget/index.html''] 0 ?out []"
  let ?p = "\<lparr>proc_returncode = 0, proc_stdout = ?out, proc_stderr = []\<rparr>"
  have 1: "exec ?h wget_extractor (extract_cmd wget_extractor ''https://example.com'')
             (get_output_path wget_extractor ''https://example.com'') = Inr ?p"
    by (simp add: exec_def stub_host_def stub_binary_def wget_extractor_def)
  have 2: "decode ?h (proc_stdout ?p) = Some ?out"
    by (simp add: stub_host_def)
  have 3: "decode ?h (proc_stderr ?p) = Some []"
    by (simp add: stub_host_def)
  have 4: "lines_trimmed (py_split newline ?out)"
    by code_simp
  have 5: "last_nonempty_line ?out = Some ''FINISHED''"
    by code_simp
  from extract_output [OF 1 2 3, where ?'c = unit] 4 5 show ?thesis by auto
qed


section \<open>Properties of the LDAP configuration\<close>

text \<open>
  C4, as stated, fails: with the LDAP packages installed, a configuration that enables
  LDAP and leaves the companion fields unset is not downgraded; its construction fails.
\<close>

theorem ldap_incomplete_fails:
  "construct_LdapConfig True ldap_enabled_unset = (Inl ValidationError, [])"
  by (simp add: construct_LdapConfig_def validate_ldap_config_def ldap_enabled_unset_def)

text \<open>
  C4, amended. The downgrade depends on the LDAP packages, not on the companion fields:
  if LDAP is enabled and the packages are not installed, construction succeeds with LDAP
  disabled and one warning written, whatever the other fields hold. If LDAP is enabled
  and the packages are installed, construction fails when one of the server URI, bind DN,
  bind password, user base and user filter is unset or empty, and succeeds unchanged
  otherwise. With LDAP disabled it succeeds unchanged.
\<close>

theorem ldap_construction:
  "(LDAP_ENABLED c \<and> \<not> LDAP_LIB \<longrightarrow>
      construct_LdapConfig LDAP_LIB c
        = (Inr (c\<lparr>LDAP_ENABLED := False\<rparr>), [ldap_not_installed_warning]))
   \<and> (LDAP_ENABLED c \<and> LDAP_LIB \<and> \<not> ldap_complete c \<longrightarrow>
      construct_LdapConfig LDAP_LIB c = (Inl ValidationError, []))
   \<and> (LDAP_ENABLED c \<and> LDAP_LIB \<and> ldap_complete c \<longrightarrow>
      construct_LdapConfig LDAP_LIB c = (Inr c, []))
   \<and> (\<not> LDAP_ENABLED c \<longrightarrow> construct_LdapConfig LDAP_LIB c = (Inr c, []))"
  by (simp add: construct_LdapConfig_def validate_ldap_config_def ldap_complete_def)

theorem ldap_construction_witness:
  "construct_LdapConfig False ldap_enabled_unset
     = (Inr (ldap_enabled_unset\<lparr>LDAP_ENABLED := False\<rparr>), [ldap_not_installed_warning])
   \<and> construct_LdapConfig True (ldap_enabled_unset\<lparr>LDAP_SERVER_URI := Some ''ldap://a''\<rparr>)
     = (Inl ValidationError, [])
   \<and> construct_LdapConfig True (ldap_enabled_unset\<lparr>LDAP_ENABLED := False\<rparr>)
     = (Inr (ldap_enabled_unset\<lparr>LDAP_ENABLED := False\<rparr>), [])"
  using ldap_construction [of ldap_enabled_unset False]
    ldap_construction [of "ldap_enabled_unset\<lparr>LDAP_SERVER_URI := Some ''ldap://a''\<rparr>" True]
    ldap_construction [of "ldap_enabled_unset\<lparr>LDAP_ENABLED := False\<rparr>" True]
  by (simp add: ldap_enabled_unset_def ldap_complete_def)

text \<open>
  C10. The backend list is the same two-element list, the model backend and then the LDAP
  backend, for every configuration; disabling LDAP does not change it.
\<close>

theorem backends_constant:
  "AUTHENTICATION_BACKENDS self =
     [''django.contrib.auth.backends.ModelBackend'', ''django_auth_ldap.backend.LDAPBackend'']
   \<and> AUTHENTICATION_BACKENDS (self\<lparr>LDAP_ENABLED := False\<rparr>) = AUTHENTICATION_BACKENDS self
   \<and> length (AUTHENTICATION_BACKENDS self) = 2"
  by (simp add: AUTHENTICATION_BACKENDS_def)


section \<open>Properties of the playwright provider\<close>

text \<open>The browsers directory is never the empty string, so it is a legal separator for
  \<open>split\<close> in the install handler.\<close>

lemma Path_not_empty: "Path p \<noteq> []"
  by (simp add: Path_def Let_def)

lemma playwright_browsers_dir_not_empty: "playwright_browsers_dir h \<noteq> []"
  by (simp add: playwright_browsers_dir_def expanduser_def MACOS_PLAYWRIGHT_CACHE_DIR_def
      LINUX_PLAYWRIGHT_CACHE_DIR_def Let_def Path_not_empty split: option.splits)

text \<open>The install handler may replace the cached path of a binary; it never removes an
  entry.\<close>

lemma install_never_removes:
  "browser_abspaths self k = Some v \<Longrightarrow>
     \<exists>v'. browser_abspaths (fst (snd (default_install_handler h self bin_name packages0))) k
            = Some v'"
  by (auto simp: default_install_handler_def setup_fn_def cache_installed_def Let_def
      split: option.splits prod.splits list.splits if_splits)





text \<open>
  C6, as stated, fails in its last part: a populated cache entry does not stay as it is
  for the lifetime of the process. On one unchanged host, resolution caches the place of
  \<open>google-chrome-stable\<close>; an install of \<open>chrome\<close> then replaces that entry with the place of
  the binary it installed, and the next resolve call returns the new path.
\<close>

theorem install_replaces_cached_path:
  "fst (default_abspath_handler overwrite_host fresh_provider ''chrome'')
     = Inr (Some ''/usr/bin/google-chrome-stable'')
   \<and> browser_abspaths (snd (default_abspath_handler overwrite_host fresh_provider ''chrome''))
        ''chrome''
     = Some ''/usr/bin/google-chrome-stable''
   \<and> browser_abspaths
        (fst (snd (default_install_handler overwrite_host
                     (snd (default_abspath_handler overwrite_host fresh_provider ''chrome''))
                     ''chrome'' None)))
        ''chrome''
     = Some ''/home/u/.cache/ms-playwright/chromium/chrome''
   \<and> fst (default_abspath_handler overwrite_host
            (fst (snd (default_install_handler overwrite_host
                         (snd (default_abspath_handler overwrite_host fresh_provider ''chrome''))
                         ''chrome'' None)))
            ''chrome'')
     = Inr (Some ''/home/u/.cache/ms-playwright/chromium/chrome'')"
  by code_simp

text \<open>
  C6, amended. Path resolution is idempotent and caches successful lookups: a second
  resolve call with the same name on the same host returns what the first returned; when
  a resolve call returns a path, the cache holds that path for the binary name
  afterwards, and a following resolve call with the same name returns the same path and
  the same provider on every host, that is, from the cache without looking at the
  filesystem (a call that returns not-found stores nothing). No resolve call removes or
  changes an entry that the cache holds. Within the lifetime of the process an entry is
  never removed; the install handler may replace it.
\<close>

theorem abspath_cached:
  "(fst (default_abspath_handler h self bin_name) = Inr (Some p) \<longrightarrow>
      browser_abspaths (snd (default_abspath_handler h self bin_name)) bin_name = Some p
      \<and> (\<forall>h'. default_abspath_handler h' (snd (default_abspath_handler h self bin_name)) bin_name
                 = (Inr (Some p), snd (default_abspath_handler h self bin_name))))
   \<and> (fst (default_abspath_handler h self bin_name) = Inr None \<longrightarrow>
      snd (default_abspath_handler h self bin_name) = self)
   \<and> fst (default_abspath_handler h (snd (default_abspath_handler h self bin_name)) bin_name)
        = fst (default_abspath_handler h self bin_name)
   \<and> (\<forall>k v. browser_abspaths self k = Some v \<longrightarrow>
              browser_abspaths (snd (default_abspath_handler h self bin_name)) k = Some v)
   \<and> (\<forall>k v. browser_abspaths self k = Some v \<longrightarrow>
              (\<exists>v'. browser_abspaths
                      (fst (snd (default_install_handler h self installed packages0))) k
                    = Some v'))"
proof (intro conjI)
  show "\<forall>k v. browser_abspaths self k = Some v \<longrightarrow>
          (\<exists>v'. browser_abspaths
                  (fst (snd (default_install_handler h self installed packages0))) k
                = Some v')"
    using install_never_removes by blast
qed (auto simp: default_abspath_handler_def Let_def split: option.splits if_splits)

theorem abspath_cached_witness:
  "fst (default_abspath_handler
          (example_host ''Linux'' linux_found None (finished 0 [] []) (finished 0 [] []))
          fresh_provider ''chrome'')
     = Inr (Some ''/home/u/.cache/ms-playwright/chromium-1134/chrome-linux/chrome'')
   \<and> fst (default_abspath_handler
            (example_host ''Linux'' [] None (finished 0 [] []) (finished 0 [] []))
            (snd (default_abspath_handler
                    (example_host ''Linux'' linux_found None (finished 0 [] []) (finished 0 [] []))
                    fresh_provider ''chrome''))
            ''chrome'')
     = Inr (Some ''/home/u/.cache/ms-playwright/chromium-1134/chrome-linux/chrome'')"
proof -
  let ?h = "example_host ''Linux'' linux_found None (finished 0 [] []) (finished 0 [] [])"
  let ?p = "''/home/u/.cache/ms-playwright/chromium-1134/chrome-linux/chrome''"
  have 1: "fst (default_abspath_handler ?h fresh_provider ''chrome'') = Inr (Some ?p)"
    by code_simp
  from abspath_cached [of ?h fresh_provider "''chrome''" ?p] 1
  show ?thesis by simp
qed

lemma linux_browser_bins_filter:
  "linux_browser_bins ps =
     filter (\<lambda>path. \<not> py_in ''xdg-settings'' path \<and> \<not> py_in ''ffmpeg'' path
                    \<and> py_in ''/chrom'' path \<and> py_in ''chrom'' (py_lower (after_last_slash path))) ps"
  by (induction ps) simp_all

lemma sorted_paths_sorted: "sorted (map path_parts (sorted_paths ps))"
  by (simp add: sorted_paths_def)

lemma installed_browser_bins_sorted:
  "sorted (map path_parts (installed_browser_bins h browser_name))"
  by (simp add: installed_browser_bins_def Let_def linux_browser_bins_filter sorted_paths_sorted
      sorted_filter)

lemma matching_bins_sorted: "sorted (map path_parts (matching_bins h bin_name))"
  by (simp add: matching_bins_def installed_browser_bins_sorted sorted_filter)

lemma sorted_last_greatest:
  "sorted (map f xs) \<Longrightarrow> x \<in> set xs \<Longrightarrow> f x \<le> f (last xs)"
  by (induction xs) (auto split: if_splits)

lemma installed_browser_bins_excludes:
  assumes "py_lower (platform_system h) \<noteq> ''darwin''"
    and "p \<in> set (installed_browser_bins h browser_name)"
  shows "\<not> py_in ''ffmpeg'' p \<and> \<not> py_in ''xdg-settings'' p"
  using assms by (auto simp: installed_browser_bins_def Let_def linux_browser_bins_filter)

text \<open>
  C7, as stated, fails on macOS: that branch returns the sorted glob result as it is, with
  no exclusion. On a macOS host where the glob finds a binary whose path contains
  \<open>ffmpeg\<close>, discovery keeps that path and resolution returns it.
\<close>

theorem darwin_discovery_keeps_ffmpeg:
  "installed_browser_bins
      (example_host ''Darwin'' darwin_found None (finished 0 [] []) (finished 0 [] [])) ''*''
     = [''/home/u/Library/Caches/ms-playwright/chromium-1097/chrome-mac/ffmpeg.app/Contents/MacOS/ffmpeg'']
   \<and> py_in ''ffmpeg''
        ''/home/u/Library/Caches/ms-playwright/chromium-1097/chrome-mac/ffmpeg.app/Contents/MacOS/ffmpeg''
   \<and> fst (default_abspath_handler
            (example_host ''Darwin'' darwin_found None (finished 0 [] []) (finished 0 [] []))
            fresh_provider ''chrome'')
     = Inr (Some ''/home/u/Library/Caches/ms-playwright/chromium-1097/chrome-mac/ffmpeg.app/Contents/MacOS/ffmpeg'')"
  by code_simp

text \<open>
  C7, amended. On every platform other than macOS, no path that discovery returns
  contains \<open>ffmpeg\<close> or \<open>xdg-settings\<close> (on macOS the sorted glob result is returned
  unfiltered). On every platform the candidates for \<open>chrome\<close> are sorted in the order of
  paths; when the cache has no entry and there are candidates, resolution returns the last
  one, which is greatest in that order; when there is none, resolution returns what the
  lookup of \<open>google-chrome-stable\<close> on the search path returns.
\<close>

theorem browser_discovery:
  "(py_lower (platform_system h) \<noteq> ''darwin'' \<longrightarrow>
      (\<forall>p \<in> set (installed_browser_bins h browser_name).
          \<not> py_in ''ffmpeg'' p \<and> \<not> py_in ''xdg-settings'' p))
   \<and> sorted (map path_parts (matching_bins h ''chrome''))
   \<and> (browser_abspaths self ''chrome'' = None \<and> matching_bins h ''chrome'' \<noteq> [] \<longrightarrow>
        fst (default_abspath_handler h self ''chrome'')
          = Inr (Some (last (matching_bins h ''chrome'')))
        \<and> (\<forall>c \<in> set (matching_bins h ''chrome'').
              path_parts c \<le> path_parts (last (matching_bins h ''chrome''))))
   \<and> (browser_abspaths self ''chrome'' = None \<and> matching_bins h ''chrome'' = [] \<longrightarrow>
        fst (default_abspath_handler h self ''chrome'')
          = Inr (bin_abspath h ''google-chrome-stable''))"
proof (intro conjI impI ballI)
  fix p
  assume "py_lower (platform_system h) \<noteq> ''darwin''"
    and "p \<in> set (installed_browser_bins h browser_name)"
  then show "\<not> py_in ''ffmpeg'' p" and "\<not> py_in ''xdg-settings'' p"
    using installed_browser_bins_excludes by blast+
next
  show "sorted (map path_parts (matching_bins h ''chrome''))"
    by (rule matching_bins_sorted)
next
  assume "browser_abspaths self ''chrome'' = None \<and> matching_bins h ''chrome'' \<noteq> []"
  then show "fst (default_abspath_handler h self ''chrome'')
               = Inr (Some (last (matching_bins h ''chrome'')))"
    by (simp add: default_abspath_handler_def Let_def)
next
  fix c
  assume "c \<in> set (matching_bins h ''chrome'')"
  then show "path_parts c \<le> path_parts (last (matching_bins h ''chrome''))"
    using sorted_last_greatest [OF matching_bins_sorted] by blast
next
  assume "browser_abspaths self ''chrome'' = None \<and> matching_bins h ''chrome'' = []"
  then show "fst (default_abspath_handler h self ''chrome'')
               = Inr (bin_abspath h ''google-chrome-stable'')"
    by (simp add: default_abspath_handler_def split: option.splits)
qed

theorem browser_discovery_witness:
  "installed_browser_bins
      (example_host ''Linux'' linux_found None (finished 0 [] []) (finished 0 [] [])) ''*''
     = [''/home/u/.cache/ms-playwright/chromium-1097/chrome-linux/chrome'',
        ''/home/u/.cache/ms-playwright/chromium-1134/chrome-linux/chrome'']
   \<and> fst (default_abspath_handler
            (example_host ''Linux'' linux_found None (finished 0 [] []) (finished 0 [] []))
            fresh_provider ''chrome'')
     = Inr (Some ''/home/u/.cache/ms-playwright/chromium-1134/chrome-linux/chrome'')
   \<and> path_parts ''/home/u/.cache/ms-playwright/chromium-1097/chrome-linux/chrome''
     \<le> path_parts ''/home/u/.cache/ms-playwright/chromium-1134/chrome-linux/chrome''
   \<and> \<not> py_in ''ffmpeg'' ''/home/u/.cache/ms-playwright/chromium-1134/chrome-linux/chrome''
   \<and> fst (default_abspath_handler
            (example_host ''Linux'' [] (Some ''/usr/bin/google-chrome-stable'')
               (finished 0 [] []) (finished 0 [] []))
            fresh_provider ''chrome'')
     = Inr (Some ''/usr/bin/google-chrome-stable'')"
proof -
  let ?h = "example_host ''Linux'' linux_found None (finished 0 [] []) (finished 0 [] [])"
  let ?g = "example_host ''Linux'' [] (Some ''/usr/bin/google-chrome-stable'')
              (finished 0 [] []) (finished 0 [] [])"
  let ?old = "''/home/u/.cache/ms-playwright/chromium-1097/chrome-linux/chrome''"
  let ?new = "''/home/u/.cache/ms-playwright/chromium-1134/chrome-linux/chrome''"
  have linux: "py_lower (platform_system ?h) \<noteq> ''darwin''"
    by code_simp
  have bins: "installed_browser_bins ?h ''*'' = [?old, ?new]"
    by code_simp
  have matching: "matching_bins ?h ''chrome'' = [?old, ?new]"
    by code_simp
  have none: "matching_bins ?g ''chrome'' = []"
    by code_simp
  have fresh: "browser_abspaths fresh_provider ''chrome'' = None"
    by (simp add: fresh_provider_def)
  have stable: "bin_abspath ?g ''google-chrome-stable'' = Some ''/usr/bin/google-chrome-stable''"
    by (simp add: example_host_def)
  from browser_discovery [of ?h "''*''" fresh_provider] linux bins matching fresh
  have 1: "\<not> py_in ''ffmpeg'' ?new"
    and 2: "fst (default_abspath_handler ?h fresh_provider ''chrome'') = Inr (Some ?new)"
    and 3: "path_parts ?old \<le> path_parts ?new"
    by simp_all
  from browser_discovery [of ?g "''*''" fresh_provider] none fresh stable
  have 4: "fst (default_abspath_handler ?g fresh_provider ''chrome'')
             = Inr (Some ''/usr/bin/google-chrome-stable'')"
    by simp
  from bins 1 2 3 4 show ?thesis by simp
qed

lemma with_deps_result_dir:
  "playwright_browsers_dir (with_deps_result h deps) = playwright_browsers_dir h"
  by (simp add: with_deps_result_def playwright_browsers_dir_def expanduser_def Let_def
      split: option.splits)

lemma with_deps_result_simps:
  "setup_fn (with_deps_result h deps) self = setup_fn h self"
  "INSTALLER_BIN_ABSPATH (with_deps_result h deps) = INSTALLER_BIN_ABSPATH h"
  "packages_or_default (with_deps_result h deps) n pk = packages_or_default h n pk"
  "binprovider_exec (with_deps_result h deps) b (''install'' # ps)
     = binprovider_exec h b (''install'' # ps)"
  by (simp_all add: setup_fn_def packages_or_default_def with_deps_result_dir
      split: option.splits)
    (simp_all add: with_deps_result_def)

lemma with_deps_result_cache:
  "cache_installed (with_deps_result h deps) self n out = cache_installed h self n out"
  by (simp add: cache_installed_def with_deps_result_dir split: list.splits)
    (simp add: with_deps_result_def)

lemma install_deps_independent:
  "fst (default_install_handler (with_deps_result h deps) self bin_name packages0)
     = fst (default_install_handler h self bin_name packages0)
   \<and> fst (snd (default_install_handler (with_deps_result h deps) self bin_name packages0))
     = fst (snd (default_install_handler h self bin_name packages0))"
  by (simp add: default_install_handler_def with_deps_result_simps with_deps_result_cache Let_def
      split: prod.splits option.splits)

text \<open>
  C3, as stated, fails: when the install subprocess exits with zero and no line of its
  output refers to the browser binary, the handler raises nothing; it returns the
  combined output. Here the dependency step has failed as well, and the install still
  returns.
\<close>

theorem install_without_reference_returns:
  "output_lines ''Downloading browsers done'' = []
   \<and> fst (default_install_handler
            (example_host ''Linux'' [] None (finished 1 [] ''missing libnss3'')
               (finished 0 ''Downloading browsers done'' []))
            fresh_provider ''chrome'' None) = Inr ''Downloading browsers done''"
  by code_simp

text \<open>
  C3, amended. Once \<open>setup\<close> has passed and the installer binary is known, an install of
  \<open>chrome\<close> goes as follows. If the install subprocess exits with a non-zero code, the
  handler raises an error made from that code and the packages; the captured output is
  printed, after what the dependency step printed, and is not part of the error. If it
  exits with zero, the handler returns the stripped standard error and standard output
  joined by a newline, and raises nothing, whether or not a line of the output refers to
  the browser binary; when none does, the provider is left as \<open>setup\<close> left it. The result
  of the dependency step changes neither what the handler raises or returns nor the
  provider afterwards: on a platform other than macOS a non-zero exit of that step only
  prints its two stripped buffers.
\<close>

theorem install_outcome:
  assumes "setup_fn h self = (None, self1)"
    and "INSTALLER_BIN_ABSPATH h = Some installer"
    and "binprovider_exec h installer (''install'' # packages_or_default h ''chrome'' packages0)
           = proc"
  shows "(proc_returncode proc \<noteq> 0 \<longrightarrow>
            default_install_handler h self ''chrome'' packages0
              = (Inl (InstallReturncode (proc_returncode proc)
                        (packages_or_default h ''chrome'' packages0)),
                 self1,
                 install_deps h installer
                   @ [py_strip (proc_stdout proc), py_strip (proc_stderr proc)]))
       \<and> (proc_returncode proc = 0 \<longrightarrow>
            default_install_handler h self ''chrome'' packages0
              = (Inr (py_strip (py_strip (proc_stderr proc) @ newline
                                @ py_strip (proc_stdout proc))),
                 cache_installed h self1 ''chrome'' (proc_stdout proc),
                 install_deps h installer))
       \<and> (output_lines (proc_stdout proc) = [] \<longrightarrow>
            cache_installed h self1 ''chrome'' (proc_stdout proc) = self1)
       \<and> (\<forall>deps.
            fst (default_install_handler (with_deps_result h deps) self ''chrome'' packages0)
              = fst (default_install_handler h self ''chrome'' packages0)
            \<and> fst (snd (default_install_handler (with_deps_result h deps) self ''chrome'' packages0))
              = fst (snd (default_install_handler h self ''chrome'' packages0)))
       \<and> (py_lower (platform_system h) \<noteq> ''darwin''
            \<and> proc_returncode (binprovider_exec h installer [''install-deps'']) \<noteq> 0 \<longrightarrow>
            install_deps h installer
              = [py_strip (proc_stdout (binprovider_exec h installer [''install-deps''])),
                 py_strip (proc_stderr (binprovider_exec h installer [''install-deps'']))])"
  using assms install_deps_independent
  by (simp add: default_install_handler_def Let_def install_deps_def cache_installed_def)

theorem install_outcome_witness:
  "fst (default_install_handler
          (example_host ''Linux'' [] None (finished 1 [] ''missing libnss3'')
             (finished 2 ''partial'' ''network down''))
          fresh_provider ''chrome'' None)
     = Inl (InstallReturncode 2 [''chromium''])
   \<and> snd (snd (default_install_handler
          (example_host ''Linux'' [] None (finished 1 [] ''missing libnss3'')
             (finished 2 ''partial'' ''network down''))
          fresh_provider ''chrome'' None))
     = [[], ''missing libnss3'', ''partial'', ''network down'']
   \<and> fst (default_install_handler
          (example_host ''Linux'' [] None (finished 1 [] ''missing libnss3'')
             (finished 0 ''Downloading browsers done'' []))
          fresh_provider ''chrome'' None)
     = Inr ''Downloading browsers done''"
proof -
  let ?deps = "finished 1 [] ''missing libnss3''"
  let ?bad = "finished 2 ''partial'' ''network down''"
  let ?good = "finished 0 ''Downloading browsers done'' []"
  let ?h = "example_host ''Linux'' [] None ?deps ?bad"
  let ?g = "example_host ''Linux'' [] None ?deps ?good"
  have s: "setup_fn ?h fresh_provider = (None, fresh_provider)"
          "setup_fn ?g fresh_provider = (None, fresh_provider)"
    by (simp_all add: setup_fn_def example_host_def)
  have i: "INSTALLER_BIN_ABSPATH ?h = Some ''/usr/bin/playwright''"
          "INSTALLER_BIN_ABSPATH ?g = Some ''/usr/bin/playwright''"
    by (simp_all add: example_host_def)
  have pk: "packages_or_default ?h ''chrome'' None = [''chromium'']"
    by (simp add: packages_or_default_def example_host_def)
  have p: "binprovider_exec ?h ''/usr/bin/playwright''
             (''install'' # packages_or_default ?h ''chrome'' None) = ?bad"
          "binprovider_exec ?g ''/usr/bin/playwright''
             (''install'' # packages_or_default ?g ''chrome'' None) = ?good"
    by (simp_all add: example_host_def)
  have d: "binprovider_exec ?h ''/usr/bin/playwright'' [''install-deps''] = ?deps"
    by (simp add: example_host_def)
  have linux: "py_lower (platform_system ?h) \<noteq> ''darwin''"
    by code_simp
  have strips: "py_strip [] = []" "py_strip ''missing libnss3'' = ''missing libnss3''"
    "py_strip ''partial'' = ''partial''" "py_strip ''network down'' = ''network down''"
    "py_strip ''Downloading browsers done'' = ''Downloading browsers done''"
    "py_strip ([] @ newline @ ''Downloading browsers done'') = ''Downloading browsers done''"
    by code_simp+
  from install_outcome [OF s(1) i(1) p(1)] pk d linux strips
  have 1: "default_install_handler ?h fresh_provider ''chrome'' None
             = (Inl (InstallReturncode 2 [''chromium'']), fresh_provider,
                [[], ''missing libnss3'', ''partial'', ''network down''])"
    by (simp add: finished_def)
  from install_outcome [OF s(2) i(2) p(2)] strips
  have 2: "fst (default_install_handler ?g fresh_provider ''chrome'' None)
             = Inr ''Downloading browsers done''"
    by (simp add: finished_def)
  from 1 2 show ?thesis by simp
qed

end
